theory Spec2Isabelle
  imports Main "HOL-Library.AList"
begin

section \<open>Python values, exceptions and the object store\<close>

text \<open>
  The values that occur in \<^verbatim>\<open>flask_social/core.py\<close>: \<^verbatim>\<open>None\<close>, booleans,
  integers, byte strings and references to objects. A dictionary is a mutable object, so
  it lives in a store and a value only refers to it (\<open>PRef\<close>): two values can refer to
  the same dictionary, and an update through one is seen through the other.
\<close>

datatype pyval = PNone | PBool bool | PInt int | PStr string | PRef nat

text \<open>
  The exceptions the code can raise or let through. \<open>DanglingReference\<close> is not a
  Python exception: it is what the model answers for a reference that points outside the
  store, which no Python program can build.
\<close>

datatype py_error =
    ConnectionNotFoundError
  | NotImplementedError
  | UnboundLocalError
  | KeyError
  | TypeError
  | ValueError
  | AttributeError
  | ImportError
  | DanglingReference

type_synonym 'a result = "py_error + 'a"

text \<open>Sequencing of two steps, the first of which may raise.\<close>

definition and_then :: "'a result \<Rightarrow> ('a \<Rightarrow> 'b result) \<Rightarrow> 'b result" where
  "and_then m f = (case m of Inl e \<Rightarrow> Inl e | Inr x \<Rightarrow> f x)"

text \<open>
  A dictionary is an association list with each key once; the order of the list is the
  order in which \<^verbatim>\<open>keys()\<close> and \<^verbatim>\<open>items()\<close> enumerate it. The store is the list of
  all dictionaries allocated so far, and an address is an index into it.
\<close>

type_synonym pydict = "(string \<times> pyval) list"

type_synonym heap = "pydict list"

definition wf_dict :: "pydict \<Rightarrow> bool" where
  "wf_dict d = distinct (map fst d)"

definition alloc :: "heap \<Rightarrow> pydict \<Rightarrow> nat \<times> heap" where
  "alloc h d = (length h, h @ [d])"

text \<open>\<^verbatim>\<open>v.copy()\<close>: a shallow copy of a dictionary; other values have no such method.\<close>

definition dict_copy :: "heap \<Rightarrow> pyval \<Rightarrow> (nat \<times> heap) result" where
  "dict_copy h v =
     (case v of
        PRef a \<Rightarrow> (if a < length h then Inr (alloc h (h ! a)) else Inl DanglingReference)
      | _ \<Rightarrow> Inl AttributeError)"

text \<open>\<^verbatim>\<open>v[k]\<close> for a string \<open>k\<close>.\<close>

definition getitem :: "heap \<Rightarrow> pyval \<Rightarrow> string \<Rightarrow> pyval result" where
  "getitem h v k =
     (case v of
        PRef a \<Rightarrow>
          (if a < length h
           then (case map_of (h ! a) k of None \<Rightarrow> Inl KeyError | Some x \<Rightarrow> Inr x)
           else Inl DanglingReference)
      | _ \<Rightarrow> Inl TypeError)"

text \<open>\<^verbatim>\<open>d[k] = v\<close> on the dictionary at address \<open>a\<close>.\<close>

definition setitem :: "heap \<Rightarrow> nat \<Rightarrow> string \<Rightarrow> pyval \<Rightarrow> heap" where
  "setitem h a k v = (if a < length h then h[a := AList.update k v (h ! a)] else h)"

text \<open>\<^verbatim>\<open>d.get(k)\<close> on the dictionary at address \<open>a\<close>: \<^verbatim>\<open>None\<close> for a missing key.\<close>

definition dict_get :: "heap \<Rightarrow> nat \<Rightarrow> string \<Rightarrow> pyval" where
  "dict_get h a k =
     (if a < length h then (case map_of (h ! a) k of None \<Rightarrow> PNone | Some v \<Rightarrow> v)
      else PNone)"

text \<open>\<^verbatim>\<open>d.setdefault(k, v)\<close> on the dictionary at address \<open>a\<close>.\<close>

definition setdefault :: "heap \<Rightarrow> nat \<Rightarrow> string \<Rightarrow> pyval \<Rightarrow> heap" where
  "setdefault h a k v =
     (if a < length h \<and> map_of (h ! a) k = None then h[a := h ! a @ [(k, v)]] else h)"

text \<open>
  \<^verbatim>\<open>d.update(v)\<close> on the dictionary at address \<open>a\<close>. A dictionary argument is
  stored item by item. Any other argument is iterated as a sequence of pairs: the empty
  string has no element and changes nothing, a longer string fails on its first
  character, and \<^verbatim>\<open>None\<close>, booleans and integers are not iterable.
\<close>

definition dict_update :: "heap \<Rightarrow> nat \<Rightarrow> pyval \<Rightarrow> heap result" where
  "dict_update h a v =
     (case v of
        PRef b \<Rightarrow>
          (if a < length h \<and> b < length h
           then Inr (h[a := fold (\<lambda>(k, x). AList.update k x) (h ! b) (h ! a)])
           else Inl DanglingReference)
      | PStr s \<Rightarrow> (if s = [] then Inr h else Inl ValueError)
      | _ \<Rightarrow> Inl TypeError)"

section \<open>Byte strings\<close>

text \<open>\<^verbatim>\<open>s.startswith(p)\<close>.\<close>

definition startswith :: "string \<Rightarrow> string \<Rightarrow> bool" where
  "startswith s p = (take (length p) s = p)"

text \<open>
  \<^verbatim>\<open>s.replace(old, new)\<close>: every occurrence of \<open>old\<close>, found from left to right
  without overlap, is replaced; an empty \<open>old\<close> matches before every character and at
  the end.
\<close>

fun replace :: "string \<Rightarrow> string \<Rightarrow> string \<Rightarrow> string" where
  "replace old new [] = (if old = [] then new else [])"
| "replace old new (c # cs) =
     (if old = [] then new @ c # replace old new cs
      else if take (length old) (c # cs) = old
        then new @ replace old new (drop (length old - 1) cs)
      else c # replace old new cs)"

text \<open>\<^verbatim>\<open>s.lower()\<close> on a byte string: the letters A to Z move to a to z.\<close>

definition lower_char :: "char \<Rightarrow> char" where
  "lower_char c =
     (case map_of (zip ''ABCDEFGHIJKLMNOPQRSTUVWXYZ'' ''abcdefghijklmnopqrstuvwxyz'') c of
        None \<Rightarrow> c
      | Some l \<Rightarrow> l)"

definition lower :: "string \<Rightarrow> string" where
  "lower s = map lower_char s"

section \<open>Social.init\_app: normalising the provider configurations\<close>

text \<open>The module-level \<^verbatim>\<open>default_config\<close>, in the order it is written.\<close>

definition default_config :: pydict where
  "default_config =
     [(''SOCIAL_URL_PREFIX'', PNone),
      (''SOCIAL_APP_URL'', PStr ''http://127.0.0.1:5000''),
      (''SOCIAL_CONNECT_ALLOW_REDIRECT'', PStr ''/profile''),
      (''SOCIAL_CONNECT_DENY_REDIRECT'', PStr ''/profile''),
      (''SOCIAL_FLASH_MESSAGES'', PBool True),
      (''SOCIAL_POST_OAUTH_CONNECT_SESSION_KEY'', PStr ''post_oauth_connect_url''),
      (''SOCIAL_POST_OAUTH_LOGIN_SESSION_KEY'', PStr ''post_oauth_login_url'')]"

text \<open>
  Two helpers of \<^verbatim>\<open>flask_social.utils\<close> are used by \<^verbatim>\<open>init_app\<close> and are not
  part of the file: \<^verbatim>\<open>get_default_provider_names()\<close>, the names of the built-in
  providers, and \<^verbatim>\<open>get_class_from_string\<close>, which loads the object a dotted path
  names (here a provider module's \<^verbatim>\<open>default_config\<close> dictionary). Both are
  parameters of the model.
\<close>

record utils =
  get_default_provider_names :: "string list"
  get_class_from_string :: "string \<Rightarrow> pyval result"

text \<open>\<^verbatim>\<open>key.replace('SOCIAL_', '').lower()\<close>\<close>

definition provider_id_of :: "string \<Rightarrow> string" where
  "provider_id_of key = lower (replace ''SOCIAL_'' [] key)"

text \<open>\<^verbatim>\<open>key.startswith('SOCIAL_') and key not in default_config\<close>\<close>

definition is_provider_key :: "string \<Rightarrow> bool" where
  "is_provider_key key =
     (startswith key ''SOCIAL_'' \<and> key \<notin> set (map fst default_config))"

text \<open>\<^verbatim>\<open>'flask_social.providers.%s::default_config' % provider_id\<close>\<close>

definition default_config_path :: "string \<Rightarrow> string" where
  "default_config_path provider_id =
     ''flask_social.providers.'' @ provider_id @ ''::default_config''"

text \<open>
  The body of the loop for a built-in provider (the lines after the \<^verbatim>\<open>continue\<close>).
  \<open>cfg\<close> is the address of \<^verbatim>\<open>app.config\<close>; the state is the store and the list
  \<^verbatim>\<open>provider_configs\<close>.
\<close>

definition merge_default_provider ::
  "utils \<Rightarrow> nat \<Rightarrow> string \<Rightarrow> heap \<times> pyval list \<Rightarrow> (heap \<times> pyval list) result" where
  "merge_default_provider u cfg key st =
     (case st of (h, provider_configs) \<Rightarrow>
      and_then (get_class_from_string u (default_config_path (provider_id_of key))) (\<lambda>d.
      and_then (dict_copy h d) (\<lambda>(d_config, h1).
      and_then (getitem h1 (PRef d_config) ''oauth'') (\<lambda>d_oauth.
      and_then (dict_copy h1 d_oauth) (\<lambda>(d_oauth_config, h2).
      and_then (getitem h2 (PRef cfg) key) (\<lambda>a.
      and_then (dict_update h2 d_config a) (\<lambda>h3.
      and_then (getitem h3 (PRef cfg) key) (\<lambda>a'.
      and_then (getitem h3 a' ''oauth'') (\<lambda>a_oauth.
      and_then (dict_update h3 d_oauth_config a_oauth) (\<lambda>h4.
        let h5 = setitem h4 d_config ''oauth'' (PRef d_oauth_config);
            h6 = setitem h5 cfg key (PRef d_config)
        in Inr (h6, provider_configs @ [PRef d_config])))))))))))"

text \<open>
  The loop \<^verbatim>\<open>for key in app.config.keys()\<close> over the keys listed when it starts.
  \<^verbatim>\<open>app.config.get(key)\<close> answers \<^verbatim>\<open>None\<close> for a key that is not there.
\<close>

fun provider_loop ::
  "utils \<Rightarrow> nat \<Rightarrow> string list \<Rightarrow> heap \<times> pyval list \<Rightarrow> (heap \<times> pyval list) result" where
  "provider_loop u cfg [] st = Inr st"
| "provider_loop u cfg (key # keys) st =
     (if is_provider_key key then
        (if provider_id_of key \<notin> set (get_default_provider_names u) then
           (case st of (h, provider_configs) \<Rightarrow>
              provider_loop u cfg keys
                (h, provider_configs @ [dict_get h cfg key]))
         else and_then (merge_default_provider u cfg key st) (provider_loop u cfg keys))
      else provider_loop u cfg keys st)"

text \<open>
  \<^verbatim>\<open>init_app\<close> up to the end of that loop: the global options are seeded
  (\<^verbatim>\<open>app.config.setdefault\<close>), then every key of \<^verbatim>\<open>app.config\<close> is visited. The
  result is the store afterwards and \<^verbatim>\<open>provider_configs\<close>.
\<close>

definition seed_defaults :: "heap \<Rightarrow> nat \<Rightarrow> heap" where
  "seed_defaults h cfg = fold (\<lambda>(key, v) h'. setdefault h' cfg key v) default_config h"

definition init_app_configs :: "utils \<Rightarrow> heap \<Rightarrow> nat \<Rightarrow> (heap \<times> pyval list) result" where
  "init_app_configs u h cfg =
     (if cfg < length h then
        (let h0 = seed_defaults h cfg
         in provider_loop u cfg (map fst (h0 ! cfg)) (h0, []))
      else Inl DanglingReference)"

section \<open>ConnectionFactory\<close>

text \<open>
  Modelled from the spec: the \<^verbatim>\<open>Connection\<close> record the datastore returns is
  declared outside \<^verbatim>\<open>core.py\<close>; the specification gives it the eight attributes
  that \<^verbatim>\<open>as_dict\<close> reads.
\<close>

record connection =
  user_id :: pyval
  provider_id :: pyval
  provider_user_id :: pyval
  access_token :: pyval
  secret :: pyval
  display_name :: pyval
  profile_url :: pyval
  image_url :: pyval

text \<open>
  What a request gives the factory: \<^verbatim>\<open>current_user.get_id()\<close> and the two lookups
  of \<^verbatim>\<open>current_app.social.datastore\<close>, each of which returns a connection or raises
  (\<^verbatim>\<open>ConnectionNotFoundError\<close> when no record matches).
\<close>

record request_context =
  current_user_get_id :: pyval
  ds_get_primary_connection :: "pyval \<Rightarrow> string \<Rightarrow> connection result"
  ds_get_connection :: "pyval \<Rightarrow> string \<Rightarrow> pyval \<Rightarrow> connection result"

text \<open>
  A factory is its \<^verbatim>\<open>provider_id\<close> and the \<^verbatim>\<open>_create_api\<close> method of its class.
  \<open>ConnectionFactory\<close> is the base class, whose \<^verbatim>\<open>_create_api\<close> raises.
\<close>

record connection_factory =
  cf_provider_id :: string
  create_api :: "connection \<Rightarrow> pyval result"

definition ConnectionFactory :: "string \<Rightarrow> connection_factory" where
  "ConnectionFactory pid =
     \<lparr>cf_provider_id = pid, create_api = (\<lambda>connection. Inl NotImplementedError)\<rparr>"

definition get_primary_connection ::
  "request_context \<Rightarrow> connection_factory \<Rightarrow> pyval \<Rightarrow> connection result" where
  "get_primary_connection ctx self uid = ds_get_primary_connection ctx uid (cf_provider_id self)"

definition get_current_user_primary_connection ::
  "request_context \<Rightarrow> connection_factory \<Rightarrow> connection result" where
  "get_current_user_primary_connection ctx self =
     get_primary_connection ctx self (current_user_get_id ctx)"

definition get_specific_connection ::
  "request_context \<Rightarrow> connection_factory \<Rightarrow> pyval \<Rightarrow> pyval \<Rightarrow> connection result" where
  "get_specific_connection ctx self uid puid =
     ds_get_connection ctx uid (cf_provider_id self) puid"

text \<open>
  The three \<^verbatim>\<open>if\<close> statements at the head of \<^verbatim>\<open>get_connection\<close>, one after the
  other. The result is the local variable \<^verbatim>\<open>connection\<close>: \<open>None\<close> while nothing
  has been assigned to it.
\<close>

definition resolve_connection ::
  "request_context \<Rightarrow> connection_factory \<Rightarrow> pyval \<Rightarrow> pyval \<Rightarrow> connection option result" where
  "resolve_connection ctx self uid puid =
     and_then
       (if uid = PNone \<and> puid = PNone
        then and_then (get_current_user_primary_connection ctx self) (\<lambda>c. Inr (Some c))
        else Inr None) (\<lambda>c1.
     and_then
       (if uid \<noteq> PNone \<and> puid = PNone
        then and_then (get_primary_connection ctx self uid) (\<lambda>c. Inr (Some c))
        else Inr c1) (\<lambda>c2.
       (if uid \<noteq> PNone \<and> puid \<noteq> PNone
        then and_then (get_specific_connection ctx self uid puid) (\<lambda>c. Inr (Some c))
        else Inr c2)))"

text \<open>\<^verbatim>\<open>getattr(model, key)\<close> on a connection.\<close>

definition getattr_connection :: "connection \<Rightarrow> string \<Rightarrow> pyval result" where
  "getattr_connection model key =
     (if key = ''user_id'' then Inr (user_id model)
      else if key = ''provider_id'' then Inr (provider_id model)
      else if key = ''provider_user_id'' then Inr (provider_user_id model)
      else if key = ''access_token'' then Inr (access_token model)
      else if key = ''secret'' then Inr (secret model)
      else if key = ''display_name'' then Inr (display_name model)
      else if key = ''profile_url'' then Inr (profile_url model)
      else if key = ''image_url'' then Inr (image_url model)
      else Inl AttributeError)"

text \<open>The local function \<^verbatim>\<open>as_dict\<close>: its tuple of keys and its loop.\<close>

definition as_dict_keys :: "string list" where
  "as_dict_keys =
     [''user_id'', ''provider_id'', ''provider_user_id'', ''access_token'', ''secret'',
      ''display_name'', ''profile_url'', ''image_url'']"

fun as_dict_loop :: "connection \<Rightarrow> string list \<Rightarrow> pydict \<Rightarrow> pydict result" where
  "as_dict_loop model [] rv = Inr rv"
| "as_dict_loop model (key # keys) rv =
     and_then (getattr_connection model key) (\<lambda>v.
       as_dict_loop model keys (AList.update key v rv))"

definition as_dict :: "connection \<Rightarrow> pydict result" where
  "as_dict model = as_dict_loop model as_dict_keys []"

text \<open>
  \<^verbatim>\<open>get_connection\<close>. The arguments of \<^verbatim>\<open>dict(...)\<close> are evaluated from left to
  right: \<^verbatim>\<open>connection\<close> is read first (an unassigned local raises
  \<^verbatim>\<open>UnboundLocalError\<close>), then \<^verbatim>\<open>_create_api\<close> runs, then \<^verbatim>\<open>as_dict\<close>.
\<close>

definition get_connection ::
  "request_context \<Rightarrow> connection_factory \<Rightarrow> pyval \<Rightarrow> pyval \<Rightarrow> pydict result" where
  "get_connection ctx self uid puid =
     and_then (resolve_connection ctx self uid puid) (\<lambda>local.
       (case local of
          None \<Rightarrow> Inl UnboundLocalError
        | Some connection \<Rightarrow>
            and_then (create_api self connection) (\<lambda>api.
            and_then (as_dict connection) (\<lambda>rv.
              Inr ((''api'', api) # rv)))))"

text \<open>
  \<^verbatim>\<open>self.get_connection(**kwargs)\<close>: the keyword arguments are bound to the two
  parameters, a missing one takes its default \<^verbatim>\<open>None\<close>, and any other keyword is a
  \<^verbatim>\<open>TypeError\<close>.
\<close>

definition kwarg :: "pydict \<Rightarrow> string \<Rightarrow> pyval" where
  "kwarg kwargs name = (case map_of kwargs name of None \<Rightarrow> PNone | Some v \<Rightarrow> v)"

definition get_connection_kwargs ::
  "request_context \<Rightarrow> connection_factory \<Rightarrow> pydict \<Rightarrow> pydict result" where
  "get_connection_kwargs ctx self kwargs =
     (if list_all (\<lambda>name. name = ''user_id'' \<or> name = ''provider_user_id'') (map fst kwargs)
      then get_connection ctx self (kwarg kwargs ''user_id'') (kwarg kwargs ''provider_user_id'')
      else Inl TypeError)"

text \<open>
  \<^verbatim>\<open>__call__\<close>: \<open>Inr None\<close> is the return value \<^verbatim>\<open>None\<close>, \<open>Inr (Some m)\<close> the
  mapping \<open>m\<close>.
\<close>

definition ConnectionFactory_call ::
  "request_context \<Rightarrow> connection_factory \<Rightarrow> pydict \<Rightarrow> pydict option result" where
  "ConnectionFactory_call ctx self kwargs =
     (case get_connection_kwargs ctx self kwargs of
        Inl e \<Rightarrow> (if e = ConnectionNotFoundError then Inr None else Inl e)
      | Inr m \<Rightarrow> Inr (Some m))"

section \<open>LoginHandler and ConnectHandler\<close>

text \<open>
  What a handler calls outside \<^verbatim>\<open>core.py\<close>: \<^verbatim>\<open>get_display_name\<close> and
  \<^verbatim>\<open>config_value\<close> of \<^verbatim>\<open>flask_social.utils\<close>, Flask's \<^verbatim>\<open>redirect\<close>, the
  application's \<^verbatim>\<open>security.login_manager.login_view\<close>, and the text \<^verbatim>\<open>%s\<close> gives
  for a response. They are parameters, taken to return. The calls that only have an
  effect (\<^verbatim>\<open>logger.debug\<close>, \<^verbatim>\<open>do_flash\<close>) and the calls of the subclass hook and of
  the callback are recorded, in order, in a list of events.
\<close>

record handler_env =
  get_display_name :: "string \<Rightarrow> string"
  format_response :: "pyval \<Rightarrow> string"
  login_view :: pyval
  config_value :: "string \<Rightarrow> pyval"
  redirect :: "pyval \<Rightarrow> pyval"

datatype event =
    LoggerDebug string
  | DoFlash string string
  | GetProviderUserId pyval
  | GetConnectionValues pyval
  | LoginCallback string pyval pyval
  | ConnectCallback pyval pyval

text \<open>
  A handler is its \<^verbatim>\<open>provider_id\<close>, its \<^verbatim>\<open>callback\<close> (\<open>None\<close> is the default
  \<^verbatim>\<open>callback=None\<close>, and calling it is a \<^verbatim>\<open>TypeError\<close>) and the hook of its class.
  \<open>LoginHandler\<close> and \<open>ConnectHandler\<close> are the classes of the file, whose hooks
  raise.
\<close>

record login_handler =
  lh_provider_id :: string
  lh_callback :: "(string \<Rightarrow> pyval \<Rightarrow> pyval \<Rightarrow> pyval result) option"
  get_provider_user_id :: "pyval \<Rightarrow> pyval result"

record connect_handler =
  ch_provider_id :: string
  ch_callback :: "(pyval \<Rightarrow> pyval \<Rightarrow> pyval result) option"
  get_connection_values :: "pyval \<Rightarrow> pyval result"

definition LoginHandler ::
  "string \<Rightarrow> (string \<Rightarrow> pyval \<Rightarrow> pyval \<Rightarrow> pyval result) option \<Rightarrow> login_handler" where
  "LoginHandler pid cb =
     \<lparr>lh_provider_id = pid, lh_callback = cb,
      get_provider_user_id = (\<lambda>response. Inl NotImplementedError)\<rparr>"

definition ConnectHandler ::
  "string \<Rightarrow> (pyval \<Rightarrow> pyval \<Rightarrow> pyval result) option \<Rightarrow> connect_handler" where
  "ConnectHandler pid cb =
     \<lparr>ch_provider_id = pid, ch_callback = cb,
      get_connection_values = (\<lambda>response. Inl NotImplementedError)\<rparr>"

definition LoginHandler_call ::
  "handler_env \<Rightarrow> login_handler \<Rightarrow> pyval \<Rightarrow> pyval result \<times> event list" where
  "LoginHandler_call env self response =
     (let dn = get_display_name env (lh_provider_id self);
          trace = [LoggerDebug (''Received login response from '' @ dn @ '': '' @
                                format_response env response)]
      in if response = PNone then
           (Inr (redirect env (login_view env)),
            trace @ [DoFlash (''Access was denied to your '' @ dn @ '' account'') ''error''])
         else
           (case get_provider_user_id self response of
              Inl e \<Rightarrow> (Inl e, trace @ [GetProviderUserId response])
            | Inr uid \<Rightarrow>
                (case lh_callback self of
                   None \<Rightarrow> (Inl TypeError, trace @ [GetProviderUserId response])
                 | Some callback \<Rightarrow>
                     (callback (lh_provider_id self) uid response,
                      trace @ [GetProviderUserId response,
                               LoginCallback (lh_provider_id self) uid response]))))"

definition ConnectHandler_call ::
  "handler_env \<Rightarrow> connect_handler \<Rightarrow> pyval \<Rightarrow> pyval \<Rightarrow> pyval result \<times> event list" where
  "ConnectHandler_call env self response uid =
     (let dn = get_display_name env (ch_provider_id self);
          trace = [LoggerDebug (''Received connect response from '' @ dn @ ''. '' @
                                format_response env response)]
      in if response = PNone then
           (Inr (redirect env (config_value env ''CONNECT_DENY_REDIRECT'')),
            trace @ [DoFlash (''Access was denied by '' @ dn) ''error''])
         else
           (case get_connection_values self response of
              Inl e \<Rightarrow> (Inl e, trace @ [GetConnectionValues response])
            | Inr cv \<Rightarrow>
                (case ch_callback self of
                   None \<Rightarrow> (Inl TypeError, trace @ [GetConnectionValues response])
                 | Some callback \<Rightarrow>
                     (callback cv uid,
                      trace @ [GetConnectionValues response, ConnectCallback cv uid]))))"

section \<open>Social: the provider registry\<close>

text \<open>
  The attributes \<^verbatim>\<open>__init__\<close> and \<^verbatim>\<open>init_app\<close> assign to a \<^verbatim>\<open>Social\<close> object.
\<close>

record social =
  providers :: pydict
  datastore :: pyval
  oauth :: pyval

definition register_provider :: "social \<Rightarrow> string \<Rightarrow> pyval \<Rightarrow> social" where
  "register_provider self name provider =
     self\<lparr>providers := AList.update name provider (providers self)\<rparr>"

text \<open>\<^verbatim>\<open>__getattr__\<close>: \<^verbatim>\<open>self.providers.get(name, None)\<close>\<close>

definition Social_getattr :: "social \<Rightarrow> string \<Rightarrow> pyval" where
  "Social_getattr self name =
     (case map_of (providers self) name of None \<Rightarrow> PNone | Some provider \<Rightarrow> provider)"

text \<open>
  The expression \<^verbatim>\<open>social.name\<close>. Python calls \<^verbatim>\<open>__getattr__\<close> only after the
  normal lookup has failed: an attribute of the object itself, a method of the class, or
  an attribute the class inherits from \<^verbatim>\<open>object\<close> is found first. The inherited
  attributes are not listed in the file and are the parameter \<open>inherited\<close>.
\<close>

datatype attribute = Value pyval | Dict pydict | Method string

definition Social_methods :: "string list" where
  "Social_methods = [''__init__'', ''init_app'', ''register_provider'', ''__getattr__'']"

definition social_attribute ::
  "(string \<Rightarrow> attribute option) \<Rightarrow> social \<Rightarrow> string \<Rightarrow> attribute" where
  "social_attribute inherited self name =
     (if name = ''providers'' then Dict (providers self)
      else if name = ''datastore'' then Value (datastore self)
      else if name = ''oauth'' then Value (oauth self)
      else if name \<in> set Social_methods then Method name
      else (case inherited name of
              Some a \<Rightarrow> a
            | None \<Rightarrow> Value (Social_getattr self name)))"

section \<open>Auxiliary notions for the proofs\<close>

text \<open>
  A key of \<^verbatim>\<open>app.config\<close> that \<^verbatim>\<open>init_app\<close> merges with compiled-in defaults: it
  passes the test of the loop and its provider id is one of the built-in names.
\<close>

definition is_builtin_key :: "utils \<Rightarrow> string \<Rightarrow> bool" where
  "is_builtin_key u key =
     (is_provider_key key \<and> provider_id_of key \<in> set (get_default_provider_names u))"

text \<open>
  The four dictionaries a merge reads, all in the store and all different from
  \<^verbatim>\<open>app.config\<close>: the compiled-in default \<open>da\<close> with its \<^verbatim>\<open>'oauth'\<close> entry
  \<open>doa\<close>, and the application's value \<open>aa\<close> for the key with its \<^verbatim>\<open>'oauth'\<close>
  entry \<open>aoa\<close>.
\<close>

definition merge_inputs ::
  "utils \<Rightarrow> nat \<Rightarrow> string \<Rightarrow> heap \<Rightarrow> nat \<Rightarrow> nat \<Rightarrow> nat \<Rightarrow> nat \<Rightarrow> bool" where
  "merge_inputs u cfg key h da doa aa aoa =
     (get_class_from_string u (default_config_path (provider_id_of key)) = Inr (PRef da) \<and>
      da < length h \<and> da \<noteq> cfg \<and>
      map_of (h ! da) ''oauth'' = Some (PRef doa) \<and> doa < length h \<and> doa \<noteq> cfg \<and>
      map_of (h ! cfg) key = Some (PRef aa) \<and> aa < length h \<and> aa \<noteq> cfg \<and>
      map_of (h ! aa) ''oauth'' = Some (PRef aoa) \<and> aoa < length h \<and> aoa \<noteq> cfg)"

text \<open>Whether \<open>old\<close> occurs somewhere in a byte string.\<close>

fun occurs :: "string \<Rightarrow> string \<Rightarrow> bool" where
  "occurs old [] = (old = [])"
| "occurs old (c # cs) = (take (length old) (c # cs) = old \<or> occurs old cs)"

section \<open>Example inputs\<close>

text \<open>
  An application whose configuration (address 0) holds a built-in provider
  (\<^verbatim>\<open>SOCIAL_TWITTER = {'consumer_key': 'X', 'oauth': {'request_token_url': 'custom'}}\<close>, addresses 3
  and 4) and a provider of its own (\<^verbatim>\<open>SOCIAL_CUSTOM\<close>, addresses 5 and 6). The
  compiled-in defaults of twitter are at addresses 1 and 2:
  \<^verbatim>\<open>{'oauth': {'request_token_url': 'default_url', 'access_token_url': 'default_access'}}\<close>.
\<close>

definition example_utils :: utils where
  "example_utils =
     \<lparr>get_default_provider_names = [''twitter'', ''facebook''],
      get_class_from_string =
        (\<lambda>path. if path = ''flask_social.providers.twitter::default_config''
                then Inr (PRef 1) else Inl ImportError)\<rparr>"

definition example_heap :: heap where
  "example_heap =
     [[(''SECRET_KEY'', PStr ''dev''), (''SOCIAL_TWITTER'', PRef 3), (''SOCIAL_CUSTOM'', PRef 5)],
      [(''oauth'', PRef 2)],
      [(''request_token_url'', PStr ''default_url''),
       (''access_token_url'', PStr ''default_access'')],
      [(''consumer_key'', PStr ''X''), (''oauth'', PRef 4)],
      [(''request_token_url'', PStr ''custom'')],
      [(''id'', PStr ''custom''), (''oauth'', PRef 6)],
      [(''base_url'', PStr ''http://example.org/'')]]"

text \<open>The store after \<^verbatim>\<open>init_app\<close> has normalised that configuration.\<close>

definition example_normalized :: heap where
  "example_normalized =
     [[(''SECRET_KEY'', PStr ''dev''), (''SOCIAL_TWITTER'', PRef 7), (''SOCIAL_CUSTOM'', PRef 5),
       (''SOCIAL_URL_PREFIX'', PNone),
       (''SOCIAL_APP_URL'', PStr ''http://127.0.0.1:5000''),
       (''SOCIAL_CONNECT_ALLOW_REDIRECT'', PStr ''/profile''),
       (''SOCIAL_CONNECT_DENY_REDIRECT'', PStr ''/profile''),
       (''SOCIAL_FLASH_MESSAGES'', PBool True),
       (''SOCIAL_POST_OAUTH_CONNECT_SESSION_KEY'', PStr ''post_oauth_connect_url''),
       (''SOCIAL_POST_OAUTH_LOGIN_SESSION_KEY'', PStr ''post_oauth_login_url'')],
      [(''oauth'', PRef 2)],
      [(''request_token_url'', PStr ''default_url''),
       (''access_token_url'', PStr ''default_access'')],
      [(''consumer_key'', PStr ''X''), (''oauth'', PRef 4)],
      [(''request_token_url'', PStr ''custom'')],
      [(''id'', PStr ''custom''), (''oauth'', PRef 6)],
      [(''base_url'', PStr ''http://example.org/'')],
      [(''oauth'', PRef 8), (''consumer_key'', PStr ''X'')],
      [(''request_token_url'', PStr ''custom''),
       (''access_token_url'', PStr ''default_access'')]]"

text \<open>A stored connection, a datastore that holds only it, and a twitter factory.\<close>

definition example_connection :: connection where
  "example_connection =
     \<lparr>user_id = PInt 1, provider_id = PStr ''twitter'', provider_user_id = PStr ''123'',
      access_token = PStr ''token'', secret = PStr ''s3cret'', display_name = PStr ''@user'',
      profile_url = PStr ''http://twitter.com/user'', image_url = PNone\<rparr>"

definition example_context :: request_context where
  "example_context =
     \<lparr>current_user_get_id = PInt 1,
      ds_get_primary_connection =
        (\<lambda>uid pid. if uid = PInt 1 \<and> pid = ''twitter'' then Inr example_connection
                   else Inl ConnectionNotFoundError),
      ds_get_connection =
        (\<lambda>uid pid puid. if uid = PInt 1 \<and> pid = ''twitter'' \<and> puid = PStr ''123''
                        then Inr example_connection else Inl ConnectionNotFoundError)\<rparr>"

definition example_factory :: connection_factory where
  "example_factory =
     \<lparr>cf_provider_id = ''twitter'', create_api = (\<lambda>connection. Inr (PRef 7))\<rparr>"

text \<open>
  A handler environment and two handlers for twitter. The connect handler finds its
  connection values at \<open>PRef 1\<close> for any response, and its callback answers \<open>PRef 2\<close>.
\<close>

definition example_env :: handler_env where
  "example_env =
     \<lparr>get_display_name = (\<lambda>pid. ''Twitter''),
      format_response = (\<lambda>response. if response = PNone then ''None'' else ''{...}''),
      login_view = PStr ''/login'',
      config_value = (\<lambda>key. PStr ''/profile''),
      redirect = (\<lambda>location. location)\<rparr>"

definition example_login_handler :: login_handler where
  "example_login_handler =
     \<lparr>lh_provider_id = ''twitter'',
      lh_callback = Some (\<lambda>pid uid response. Inr (PRef 2)),
      get_provider_user_id = (\<lambda>response. Inr (PStr ''123''))\<rparr>"

definition example_connect_handler :: connect_handler where
  "example_connect_handler =
     \<lparr>ch_provider_id = ''twitter'',
      ch_callback = Some (\<lambda>cv uid. Inr (PRef 2)),
      get_connection_values = (\<lambda>response. Inr (PRef 1))\<rparr>"

text \<open>
  A registry with one provider, and a few of the attributes every object of the class
  has without the file saying so.
\<close>

definition example_social :: social where
  "example_social =
     \<lparr>providers = [(''twitter'', PRef 10)], datastore = PRef 11, oauth = PRef 12\<rparr>"

definition example_inherited :: "string \<Rightarrow> attribute option" where
  "example_inherited =
     map_of [(''__class__'', Value (PRef 13)),
             (''__module__'', Value (PStr ''flask_social.core'')),
             (''__doc__'', Value PNone)]"


section \<open>Properties of the connection factory\<close>

lemma and_then_Inr:
  "and_then m f = Inr y \<Longrightarrow> \<exists>x. m = Inr x \<and> f x = Inr y"
  by (cases m) (simp_all add: and_then_def)

lemma and_then_Inr_simp [simp]: "and_then (Inr x) f = f x"
  by (simp add: and_then_def)

lemma and_then_Inl_simp [simp]: "and_then (Inl e) f = Inl e"
  by (simp add: and_then_def)

lemma as_dict_value:
  "as_dict c =
     Inr [(''user_id'', user_id c), (''provider_id'', provider_id c),
          (''provider_user_id'', provider_user_id c), (''access_token'', access_token c),
          (''secret'', secret c), (''display_name'', display_name c),
          (''profile_url'', profile_url c), (''image_url'', image_url c)]"
  by (simp add: as_dict_def as_dict_keys_def getattr_connection_def)

lemma example_resolve:
  "resolve_connection example_context example_factory (PInt 1) PNone =
     Inr (Some example_connection)"
  by (simp add: resolve_connection_def get_primary_connection_def example_context_def
      example_factory_def)

lemma example_get_connection:
  "get_connection example_context example_factory (PInt 1) PNone =
     Inr [(''api'', PRef 7),
          (''user_id'', PInt 1), (''provider_id'', PStr ''twitter''),
          (''provider_user_id'', PStr ''123''),
          (''access_token'', PStr ''token''), (''secret'', PStr ''s3cret''),
          (''display_name'', PStr ''@user''),
          (''profile_url'', PStr ''http://twitter.com/user''),
          (''image_url'', PNone)]"
  unfolding get_connection_def example_resolve
  by (simp add: as_dict_value example_factory_def example_connection_def)

lemma example_get_connection_missing:
  "get_connection example_context example_factory (PInt 2) PNone = Inl ConnectionNotFoundError"
  by (simp add: get_connection_def resolve_connection_def get_primary_connection_def
      example_context_def example_factory_def)

text \<open>
  C2. Calling a factory with keyword arguments never raises
  \<^verbatim>\<open>ConnectionNotFoundError\<close>. It returns \<^verbatim>\<open>None\<close> exactly when
  \<^verbatim>\<open>get_connection\<close>, called with the same arguments, raises that error; it returns a
  mapping exactly when \<^verbatim>\<open>get_connection\<close> returns that mapping; and any other error
  of \<^verbatim>\<open>get_connection\<close> is raised unchanged.
\<close>

theorem call_swallows_connection_not_found:
  "ConnectionFactory_call ctx self kwargs \<noteq> Inl ConnectionNotFoundError \<and>
   (ConnectionFactory_call ctx self kwargs = Inr None) =
     (get_connection_kwargs ctx self kwargs = Inl ConnectionNotFoundError) \<and>
   (\<forall>m. (ConnectionFactory_call ctx self kwargs = Inr (Some m)) =
     (get_connection_kwargs ctx self kwargs = Inr m)) \<and>
   (\<forall>e. (ConnectionFactory_call ctx self kwargs = Inl e) =
     (get_connection_kwargs ctx self kwargs = Inl e \<and> e \<noteq> ConnectionNotFoundError))"
  by (auto simp: ConnectionFactory_call_def split: sum.splits)

theorem call_swallows_connection_not_found_witness:
  "get_connection_kwargs example_context example_factory [(''user_id'', PInt 2)] =
     Inl ConnectionNotFoundError \<and>
   ConnectionFactory_call example_context example_factory [(''user_id'', PInt 2)] = Inr None \<and>
   get_connection_kwargs example_context example_factory [(''user_id'', PInt 1)] =
     get_connection example_context example_factory (PInt 1) PNone \<and>
   ConnectionFactory_call example_context example_factory [(''user_id'', PInt 1)] =
     Inr (Some [(''api'', PRef 7),
                (''user_id'', PInt 1), (''provider_id'', PStr ''twitter''),
                (''provider_user_id'', PStr ''123''),
                (''access_token'', PStr ''token''), (''secret'', PStr ''s3cret''),
                (''display_name'', PStr ''@user''),
                (''profile_url'', PStr ''http://twitter.com/user''),
                (''image_url'', PNone)])"
proof -
  have missing:
    "get_connection_kwargs example_context example_factory [(''user_id'', PInt 2)] =
       Inl ConnectionNotFoundError"
    by (simp add: get_connection_kwargs_def kwarg_def example_get_connection_missing)
  have found:
    "get_connection_kwargs example_context example_factory [(''user_id'', PInt 1)] =
       get_connection example_context example_factory (PInt 1) PNone"
    by (simp add: get_connection_kwargs_def kwarg_def)
  from call_swallows_connection_not_found
         [of example_context example_factory "[(''user_id'', PInt 2)]"]
       call_swallows_connection_not_found
         [of example_context example_factory "[(''user_id'', PInt 1)]"]
       missing found example_get_connection
  show ?thesis by simp
qed

text \<open>
  C3. With \<^verbatim>\<open>user_id\<close> absent (\<^verbatim>\<open>None\<close>) and \<^verbatim>\<open>provider_user_id\<close> present,
  none of the three branches of \<^verbatim>\<open>get_connection\<close> is taken: the local variable
  \<^verbatim>\<open>connection\<close> is still unassigned after them, whatever the datastore holds, and
  reading it raises \<^verbatim>\<open>UnboundLocalError\<close>.
\<close>

theorem get_connection_unbound_local:
  assumes "puid \<noteq> PNone"
  shows "resolve_connection ctx self PNone puid = Inr None \<and>
         get_connection ctx self PNone puid = Inl UnboundLocalError"
  using assms by (simp add: resolve_connection_def get_connection_def)

theorem get_connection_unbound_local_witness:
  "PStr ''123'' \<noteq> PNone \<and>
   resolve_connection example_context example_factory PNone (PStr ''123'') = Inr None \<and>
   get_connection example_context example_factory PNone (PStr ''123'') = Inl UnboundLocalError"
  using get_connection_unbound_local [of "PStr ''123''" example_context example_factory]
  by simp

text \<open>
  C9. When the three branches of \<^verbatim>\<open>get_connection\<close> have resolved a connection
  record \<open>c\<close>: if \<^verbatim>\<open>_create_api\<close> returns an object, the result is the mapping with
  the key \<^verbatim>\<open>'api'\<close> bound to that object and the eight fields of \<open>c\<close> under their
  own names, and no other key; if \<^verbatim>\<open>_create_api\<close> raises, so does
  \<^verbatim>\<open>get_connection\<close>; and the \<^verbatim>\<open>_create_api\<close> of the base class raises
  \<^verbatim>\<open>NotImplementedError\<close>.
\<close>

theorem get_connection_result:
  assumes "resolve_connection ctx self uid puid = Inr (Some c)"
  shows "(\<forall>api. create_api self c = Inr api \<longrightarrow>
            get_connection ctx self uid puid =
              Inr [(''api'', api),
                   (''user_id'', user_id c), (''provider_id'', provider_id c),
                   (''provider_user_id'', provider_user_id c),
                   (''access_token'', access_token c), (''secret'', secret c),
                   (''display_name'', display_name c), (''profile_url'', profile_url c),
                   (''image_url'', image_url c)]) \<and>
         (\<forall>e. create_api self c = Inl e \<longrightarrow> get_connection ctx self uid puid = Inl e) \<and>
         create_api (ConnectionFactory pid) c = Inl NotImplementedError"
  using assms by (simp add: get_connection_def as_dict_value ConnectionFactory_def)

theorem get_connection_result_witness:
  "resolve_connection example_context example_factory (PInt 1) PNone =
     Inr (Some example_connection) \<and>
   create_api example_factory example_connection = Inr (PRef 7) \<and>
   get_connection example_context example_factory (PInt 1) PNone =
     Inr [(''api'', PRef 7),
          (''user_id'', PInt 1), (''provider_id'', PStr ''twitter''),
          (''provider_user_id'', PStr ''123''),
          (''access_token'', PStr ''token''), (''secret'', PStr ''s3cret''),
          (''display_name'', PStr ''@user''),
          (''profile_url'', PStr ''http://twitter.com/user''),
          (''image_url'', PNone)] \<and>
   resolve_connection example_context (ConnectionFactory ''twitter'') (PInt 1) PNone =
     Inr (Some example_connection) \<and>
   get_connection example_context (ConnectionFactory ''twitter'') (PInt 1) PNone =
     Inl NotImplementedError"
proof -
  have a: "create_api example_factory example_connection = Inr (PRef 7)"
    by (simp add: example_factory_def)
  have r: "resolve_connection example_context (ConnectionFactory ''twitter'') (PInt 1) PNone =
             Inr (Some example_connection)"
    by (simp add: resolve_connection_def get_primary_connection_def example_context_def
        ConnectionFactory_def)
  from get_connection_result [OF example_resolve, of "''twitter''"]
       get_connection_result [OF r, of "''twitter''"] a r example_resolve
  show ?thesis
    by (simp add: example_connection_def)
qed

section \<open>Properties of the handlers\<close>

text \<open>
  C7. A login handler called with the response \<^verbatim>\<open>None\<close> logs the response, passes
  to \<^verbatim>\<open>do_flash\<close> the error message that access was denied to the account of the
  provider, named by its display name, and returns the redirect to the login view of the
  application. It does nothing else: in particular the callback is not called.
\<close>

theorem login_handler_denied:
  "LoginHandler_call env self PNone =
     (Inr (redirect env (login_view env)),
      [LoggerDebug (''Received login response from '' @
                    get_display_name env (lh_provider_id self) @ '': '' @
                    format_response env PNone),
       DoFlash (''Access was denied to your '' @ get_display_name env (lh_provider_id self) @
                '' account'') ''error'']) \<and>
   (\<forall>pid uid response.
      LoginCallback pid uid response \<notin> set (snd (LoginHandler_call env self PNone)))"
  by (simp add: LoginHandler_call_def Let_def)

theorem login_handler_denied_witness:
  "LoginHandler_call example_env example_login_handler PNone =
     (Inr (PStr ''/login''),
      [LoggerDebug ''Received login response from Twitter: None'',
       DoFlash ''Access was denied to your Twitter account'' ''error''])"
  using login_handler_denied [of example_env example_login_handler]
  by (simp add: example_env_def example_login_handler_def)

text \<open>
  C8. A connect handler called with a response other than \<^verbatim>\<open>None\<close> and with
  \<^verbatim>\<open>user_id = None\<close>, whose \<^verbatim>\<open>get_connection_values\<close> returns \<open>cv\<close> for the
  response and whose callback is configured: after logging, it calls
  \<^verbatim>\<open>get_connection_values\<close> on the response, then the callback on \<open>cv\<close> and
  \<^verbatim>\<open>None\<close>, and what the callback returns (or raises) is the outcome of the handler.
\<close>

theorem connect_handler_calls_callback:
  assumes "response \<noteq> PNone"
    and "get_connection_values self response = Inr cv"
    and "ch_callback self = Some callback"
  shows "ConnectHandler_call env self response PNone =
           (callback cv PNone,
            [LoggerDebug (''Received connect response from '' @
                          get_display_name env (ch_provider_id self) @ ''. '' @
                          format_response env response),
             GetConnectionValues response,
             ConnectCallback cv PNone])"
  using assms by (simp add: ConnectHandler_call_def Let_def)

theorem connect_handler_calls_callback_witness:
  "PRef 0 \<noteq> PNone \<and>
   get_connection_values example_connect_handler (PRef 0) = Inr (PRef 1) \<and>
   (\<exists>callback. ch_callback example_connect_handler = Some callback \<and>
                callback (PRef 1) PNone = Inr (PRef 2)) \<and>
   ConnectHandler_call example_env example_connect_handler (PRef 0) PNone =
     (Inr (PRef 2),
      [LoggerDebug ''Received connect response from Twitter. {...}'',
       GetConnectionValues (PRef 0),
       ConnectCallback (PRef 1) PNone])"
proof -
  have r: "PRef 0 \<noteq> PNone" by simp
  have cv: "get_connection_values example_connect_handler (PRef 0) = Inr (PRef 1)"
    by (simp add: example_connect_handler_def)
  have cb: "ch_callback example_connect_handler = Some (\<lambda>cv uid. Inr (PRef 2))"
    by (simp add: example_connect_handler_def)
  from connect_handler_calls_callback [OF r cv cb, of example_env] r cv cb
  show ?thesis
    by (simp add: example_env_def example_connect_handler_def)
qed

section \<open>Properties of the provider registry\<close>

text \<open>
  C6, as the claim states it, fails: \<^verbatim>\<open>providers\<close> is not the name of a registered
  provider of the example registry, and \<^verbatim>\<open>social.providers\<close> is the dictionary of
  the registry, not \<^verbatim>\<open>None\<close>.
\<close>

theorem social_providers_attribute_counterexample:
  "map_of (providers example_social) ''providers'' = None \<and>
   social_attribute example_inherited example_social ''providers'' \<noteq> Value PNone"
  by (simp add: example_social_def social_attribute_def)

text \<open>
  C6, amended. For every name that is not registered as a provider and that the normal
  lookup does not find (it is none of the attributes \<^verbatim>\<open>providers\<close>,
  \<^verbatim>\<open>datastore\<close> and \<^verbatim>\<open>oauth\<close> of the object, no method of the class and no
  inherited attribute), \<^verbatim>\<open>social.name\<close> is \<^verbatim>\<open>None\<close>; no error is raised.
\<close>

theorem social_unknown_attribute_is_None:
  assumes "map_of (providers self) name = None"
    and "name \<noteq> ''providers''" and "name \<noteq> ''datastore''" and "name \<noteq> ''oauth''"
    and "name \<notin> set Social_methods"
    and "inherited name = None"
  shows "social_attribute inherited self name = Value PNone"
  using assms by (simp add: social_attribute_def Social_getattr_def)

theorem social_unknown_attribute_is_None_witness:
  "map_of (providers example_social) ''facebook'' = None \<and>
   ''facebook'' \<noteq> ''providers'' \<and> ''facebook'' \<noteq> ''datastore'' \<and> ''facebook'' \<noteq> ''oauth'' \<and>
   ''facebook'' \<notin> set Social_methods \<and>
   example_inherited ''facebook'' = None \<and>
   social_attribute example_inherited example_social ''facebook'' = Value PNone"
proof -
  have 1: "map_of (providers example_social) ''facebook'' = None"
    by (simp add: example_social_def)
  have 2: "''facebook'' \<noteq> ''providers''" "''facebook'' \<noteq> ''datastore''" "''facebook'' \<noteq> ''oauth''"
    by simp_all
  have 3: "''facebook'' \<notin> set Social_methods"
    by (simp add: Social_methods_def)
  have 4: "example_inherited ''facebook'' = None"
    by (simp add: example_inherited_def)
  from social_unknown_attribute_is_None [where inherited = example_inherited, OF 1 2 3 4]
       1 2 3 4
  show ?thesis by simp
qed


section \<open>Properties of the store operations\<close>

lemma map_of_fold_update:
  "map_of (fold (\<lambda>(k, x). AList.update k x) e d) = map_of d ++ map_of (rev e)"
proof (induction e arbitrary: d)
  case Nil
  show ?case by simp
next
  case (Cons p e)
  obtain k x where p: "p = (k, x)" by (cases p)
  show ?case
    by (simp add: p Cons.IH update_conv' map_add_def fun_eq_iff map_of_append split: option.splits)
qed

lemma map_of_rev_distinct:
  "distinct (map fst e) \<Longrightarrow> map_of (rev e) = map_of e"
  by (simp add: map_of_inject_set distinct_map)

lemma dict_copy_Inr:
  "dict_copy h v = Inr (a, h1) \<Longrightarrow>
     \<exists>b. v = PRef b \<and> b < length h \<and> a = length h \<and> h1 = h @ [h ! b]"
  by (auto simp: dict_copy_def alloc_def split: pyval.splits if_splits)

lemma dict_update_Inr:
  "dict_update h a v = Inr h' \<Longrightarrow> length h' = length h \<and> (\<forall>b. b \<noteq> a \<longrightarrow> h' ! b = h ! b)"
  by (auto simp: dict_update_def split: pyval.splits if_splits)

lemma setdefault_length: "length (setdefault h cfg k v) = length h"
  by (simp add: setdefault_def)

lemma setdefault_other: "a \<noteq> cfg \<Longrightarrow> setdefault h cfg k v ! a = h ! a"
  by (simp add: setdefault_def)

lemma setdefault_keeps:
  "map_of (h ! cfg) k' = Some v' \<Longrightarrow> map_of (setdefault h cfg k v ! cfg) k' = Some v'"
  by (auto simp: setdefault_def map_add_def)

lemma setdefault_wf: "wf_dict (h ! cfg) \<Longrightarrow> wf_dict (setdefault h cfg k v ! cfg)"
  by (auto simp: setdefault_def wf_dict_def map_of_eq_None_iff)

text \<open>
  Seeding the global options changes \<^verbatim>\<open>app.config\<close> only, keeps every entry it
  already has, and keeps its keys distinct.
\<close>

lemma seed_defaults_frame:
  "length (fold (\<lambda>(key, v) h'. setdefault h' cfg key v) ds h) = length h \<and>
   (\<forall>a. a \<noteq> cfg \<longrightarrow> fold (\<lambda>(key, v) h'. setdefault h' cfg key v) ds h ! a = h ! a) \<and>
   (\<forall>k' v'. map_of (h ! cfg) k' = Some v' \<longrightarrow>
       map_of (fold (\<lambda>(key, v) h'. setdefault h' cfg key v) ds h ! cfg) k' = Some v') \<and>
   (wf_dict (h ! cfg) \<longrightarrow>
       wf_dict (fold (\<lambda>(key, v) h'. setdefault h' cfg key v) ds h ! cfg))"
proof (induction ds arbitrary: h)
  case Nil
  show ?case by simp
next
  case (Cons d ds)
  obtain k v where d: "d = (k, v)" by (cases d)
  note r = Cons.IH [of "setdefault h cfg k v"]
  show ?case
    unfolding d using r
    by (simp add: setdefault_length setdefault_other setdefault_keeps setdefault_wf)
qed

section \<open>Properties of the normalisation of one key\<close>

text \<open>
  Whenever the merge for a built-in key succeeds, it has allocated two dictionaries,
  rebound the key in \<^verbatim>\<open>app.config\<close> to the first of them, appended that reference to
  \<^verbatim>\<open>provider_configs\<close>, and changed nothing else.
\<close>

lemma merge_default_provider_Inr:
  assumes ok: "merge_default_provider u cfg key (h, pcs) = Inr (h', pcs')"
    and cfg: "cfg < length h"
  shows "length h' = length h + 2 \<and>
         (\<forall>a<length h. a \<noteq> cfg \<longrightarrow> h' ! a = h ! a) \<and>
         map_of (h' ! cfg) = (map_of (h ! cfg))(key \<mapsto> PRef (length h)) \<and>
         pcs' = pcs @ [PRef (length h)]"
  using ok cfg
  apply (simp add: merge_default_provider_def Let_def)
  apply (auto dest!: and_then_Inr dict_copy_Inr split: prod.splits)
     apply (auto dest!: dict_update_Inr)
     apply (simp_all add: setitem_def nth_append update_conv')
  done

text \<open>
  On well-formed inputs the merge succeeds, and the two new dictionaries are the default
  updated with the application's items, and the default \<^verbatim>\<open>'oauth'\<close> updated with the
  application's \<^verbatim>\<open>'oauth'\<close> items.
\<close>

lemma merge_default_provider_result:
  assumes "cfg < length h"
    and "get_class_from_string u (default_config_path (provider_id_of key)) = Inr (PRef da)"
    and "da < length h"
    and "map_of (h ! da) ''oauth'' = Some (PRef doa)" and "doa < length h"
    and "map_of (h ! cfg) key = Some (PRef aa)" and "aa < length h"
    and "map_of (h ! aa) ''oauth'' = Some (PRef aoa)" and "aoa < length h"
  shows "merge_default_provider u cfg key (h, pcs) =
           Inr ((h @ [AList.update ''oauth'' (PRef (Suc (length h)))
                        (fold (\<lambda>(k, x). AList.update k x) (h ! aa) (h ! da)),
                      fold (\<lambda>(k, x). AList.update k x) (h ! aoa) (h ! doa)])
                  [cfg := AList.update key (PRef (length h)) (h ! cfg)],
                pcs @ [PRef (length h)])"
  using assms
  by (simp add: merge_default_provider_def Let_def dict_copy_def alloc_def getitem_def
      dict_update_def setitem_def nth_append list_update_append)

lemma merge_inputs_frame:
  assumes "merge_inputs u cfg key h da doa aa aoa"
    and "length h \<le> length h1"
    and "\<forall>a<length h. a \<noteq> cfg \<longrightarrow> h1 ! a = h ! a"
    and "map_of (h1 ! cfg) key = map_of (h ! cfg) key"
  shows "merge_inputs u cfg key h1 da doa aa aoa \<and>
         h1 ! da = h ! da \<and> h1 ! doa = h ! doa \<and> h1 ! aa = h ! aa \<and> h1 ! aoa = h ! aoa"
  using assms by (auto simp: merge_inputs_def)


section \<open>Properties of the loop over the configuration keys\<close>

text \<open>
  The loop only grows the store and \<^verbatim>\<open>provider_configs\<close>; of the dictionaries that
  exist when it starts it changes \<^verbatim>\<open>app.config\<close> alone, and there only the entries of
  the built-in keys it visits.
\<close>

lemma provider_loop_frame:
  assumes "provider_loop u cfg keys (h, pcs) = Inr (h', pcs')" and "cfg < length h"
  shows "length h \<le> length h' \<and>
         (\<forall>a<length h. a \<noteq> cfg \<longrightarrow> h' ! a = h ! a) \<and>
         (\<forall>k. \<not> (k \<in> set keys \<and> is_builtin_key u k) \<longrightarrow>
              map_of (h' ! cfg) k = map_of (h ! cfg) k) \<and>
         set pcs \<subseteq> set pcs'"
  using assms
proof (induction keys arbitrary: h pcs)
  case Nil
  then show ?case by simp
next
  case (Cons key keys)
  show ?case
  proof (cases "is_builtin_key u key")
    case True
    with Cons.prems(1) obtain h1 pcs1
      where step: "merge_default_provider u cfg key (h, pcs) = Inr (h1, pcs1)"
        and rest: "provider_loop u cfg keys (h1, pcs1) = Inr (h', pcs')"
      by (auto simp: is_builtin_key_def dest!: and_then_Inr)
    note s = merge_default_provider_Inr [OF step Cons.prems(2)]
    from s Cons.prems(2) have cfg1: "cfg < length h1" by simp
    note r = Cons.IH [OF rest cfg1]
    show ?thesis using s r True by auto
  next
    case False
    define pcs1 where "pcs1 = (if is_provider_key key then pcs @ [dict_get h cfg key] else pcs)"
    from False Cons.prems(1) have rest: "provider_loop u cfg keys (h, pcs1) = Inr (h', pcs')"
      by (auto simp: pcs1_def is_builtin_key_def split: if_splits)
    have sub: "set pcs \<subseteq> set pcs1"
      by (auto simp: pcs1_def)
    note r = Cons.IH [OF rest Cons.prems(2)]
    show ?thesis using r sub False by auto
  qed
qed

text \<open>The value of a visited key of a provider that is not built in is appended as it is.\<close>

lemma provider_loop_custom:
  assumes "provider_loop u cfg keys (h, pcs) = Inr (h', pcs')" and "cfg < length h"
    and "K \<in> set keys" and "is_provider_key K"
    and "provider_id_of K \<notin> set (get_default_provider_names u)"
    and "map_of (h ! cfg) K = Some v"
  shows "v \<in> set pcs'"
  using assms
proof (induction keys arbitrary: h pcs)
  case Nil
  then show ?case by simp
next
  case (Cons key keys)
  show ?case
  proof (cases "key = K")
    case True
    with Cons.prems have rest: "provider_loop u cfg keys (h, pcs @ [v]) = Inr (h', pcs')"
      by (simp add: dict_get_def)
    from provider_loop_frame [OF rest Cons.prems(2)] show ?thesis by auto
  next
    case False
    with Cons.prems(3) have K: "K \<in> set keys" by simp
    show ?thesis
    proof (cases "is_builtin_key u key")
      case True
      with Cons.prems(1) obtain h1 pcs1
        where step: "merge_default_provider u cfg key (h, pcs) = Inr (h1, pcs1)"
          and rest: "provider_loop u cfg keys (h1, pcs1) = Inr (h', pcs')"
        by (auto simp: is_builtin_key_def dest!: and_then_Inr)
      note s = merge_default_provider_Inr [OF step Cons.prems(2)]
      from s Cons.prems(2) have cfg1: "cfg < length h1" by simp
      from s \<open>key \<noteq> K\<close> Cons.prems(6) have v1: "map_of (h1 ! cfg) K = Some v" by simp
      show ?thesis
        by (rule Cons.IH [OF rest cfg1 K Cons.prems(4) Cons.prems(5) v1])
    next
      case False
      define pcs1 where "pcs1 = (if is_provider_key key then pcs @ [dict_get h cfg key] else pcs)"
      from False Cons.prems(1) have rest: "provider_loop u cfg keys (h, pcs1) = Inr (h', pcs')"
        by (auto simp: pcs1_def is_builtin_key_def split: if_splits)
      show ?thesis
        by (rule Cons.IH [OF rest Cons.prems(2) K Cons.prems(4) Cons.prems(5) Cons.prems(6)])
    qed
  qed
qed


text \<open>
  A visited built-in key ends up bound to a new dictionary, which stays as the merge left
  it: no later iteration touches it, since the keys are distinct.
\<close>

lemma provider_loop_builtin:
  assumes "provider_loop u cfg keys (h, pcs) = Inr (h', pcs')" and "cfg < length h"
    and "distinct keys" and "K \<in> set keys" and "is_builtin_key u K"
    and "merge_inputs u cfg K h da doa aa aoa"
  shows "\<exists>c oc. length h \<le> c \<and> c < length h' \<and> length h \<le> oc \<and> oc < length h' \<and>
           map_of (h' ! cfg) K = Some (PRef c) \<and> PRef c \<in> set pcs' \<and>
           h' ! c = AList.update ''oauth'' (PRef oc)
                      (fold (\<lambda>(k, x). AList.update k x) (h ! aa) (h ! da)) \<and>
           h' ! oc = fold (\<lambda>(k, x). AList.update k x) (h ! aoa) (h ! doa)"
  using assms
proof (induction keys arbitrary: h pcs)
  case Nil
  then show ?case by simp
next
  case (Cons key keys)
  note cfg = Cons.prems(2)
  note inp = Cons.prems(6)
  show ?case
  proof (cases "key = K")
    case True
    define D where "D = AList.update ''oauth'' (PRef (Suc (length h)))
                          (fold (\<lambda>(k, x). AList.update k x) (h ! aa) (h ! da))"
    define O' where "O' = fold (\<lambda>(k, x). AList.update k x) (h ! aoa) (h ! doa)"
    define h1 where "h1 = (h @ [D, O'])[cfg := AList.update K (PRef (length h)) (h ! cfg)]"
    from inp cfg have step:
      "merge_default_provider u cfg K (h, pcs) = Inr (h1, pcs @ [PRef (length h)])"
      unfolding h1_def D_def O'_def merge_inputs_def
      by (intro merge_default_provider_result) simp_all
    with True Cons.prems(1,5) have rest:
      "provider_loop u cfg keys (h1, pcs @ [PRef (length h)]) = Inr (h', pcs')"
      by (simp add: is_builtin_key_def)
    have len1: "length h1 = length h + 2" by (simp add: h1_def)
    with cfg have cfg1: "cfg < length h1" by simp
    note r = provider_loop_frame [OF rest cfg1]
    from True Cons.prems(3) have notin: "K \<notin> set keys" by simp
    have c1: "h1 ! length h = D" using cfg by (simp add: h1_def nth_append)
    have o1: "h1 ! Suc (length h) = O'" using cfg by (simp add: h1_def nth_append)
    have k1: "map_of (h1 ! cfg) K = Some (PRef (length h))"
      using cfg by (simp add: h1_def nth_append update_conv')
    have "length h \<le> length h \<and> length h < length h' \<and>
          length h \<le> Suc (length h) \<and> Suc (length h) < length h' \<and>
          map_of (h' ! cfg) K = Some (PRef (length h)) \<and> PRef (length h) \<in> set pcs' \<and>
          h' ! length h = D \<and> h' ! Suc (length h) = O'"
      using r len1 cfg notin c1 o1 k1 by auto
    then show ?thesis unfolding D_def O'_def by blast
  next
    case False
    with Cons.prems(3,4) have K: "K \<in> set keys" and dist: "distinct keys" by simp_all
    show ?thesis
    proof (cases "is_builtin_key u key")
      case True
      with Cons.prems(1) obtain h1 pcs1
        where step: "merge_default_provider u cfg key (h, pcs) = Inr (h1, pcs1)"
          and rest: "provider_loop u cfg keys (h1, pcs1) = Inr (h', pcs')"
        by (auto simp: is_builtin_key_def dest!: and_then_Inr)
      note s = merge_default_provider_Inr [OF step cfg]
      from s cfg have cfg1: "cfg < length h1" and le1: "length h \<le> length h1" by simp_all
      from s \<open>key \<noteq> K\<close> have same: "map_of (h1 ! cfg) K = map_of (h ! cfg) K" by simp
      from s have fr: "\<forall>a<length h. a \<noteq> cfg \<longrightarrow> h1 ! a = h ! a" by simp
      note i1 = merge_inputs_frame [OF inp le1 fr same]
      from i1 have inp1: "merge_inputs u cfg K h1 da doa aa aoa" by simp
      from Cons.IH [OF rest cfg1 dist K Cons.prems(5) inp1] i1 le1
      show ?thesis by (auto intro: order_trans)
    next
      case False
      define pcs1 where "pcs1 = (if is_provider_key key then pcs @ [dict_get h cfg key] else pcs)"
      from False Cons.prems(1) have rest: "provider_loop u cfg keys (h, pcs1) = Inr (h', pcs')"
        by (auto simp: pcs1_def is_builtin_key_def split: if_splits)
      show ?thesis
        by (rule Cons.IH [OF rest cfg dist K Cons.prems(5) inp])
    qed
  qed
qed

lemma init_app_configs_loop:
  assumes "init_app_configs u h cfg = Inr (h', pcs)"
  shows "cfg < length h \<and>
         provider_loop u cfg (map fst (seed_defaults h cfg ! cfg)) (seed_defaults h cfg, []) =
           Inr (h', pcs)"
  using assms by (simp add: init_app_configs_def Let_def split: if_splits)

lemma init_app_configs_frame:
  assumes "init_app_configs u h cfg = Inr (h', pcs)"
  shows "length h \<le> length h' \<and> (\<forall>a<length h. a \<noteq> cfg \<longrightarrow> h' ! a = h ! a)"
proof -
  note l = init_app_configs_loop [OF assms]
  note s = seed_defaults_frame [of cfg default_config h, folded seed_defaults_def]
  from l s have cfg0: "cfg < length (seed_defaults h cfg)" by simp
  from provider_loop_frame [OF conjunct2 [OF l] cfg0] s show ?thesis by simp
qed

lemma example_init:
  "init_app_configs example_utils example_heap 0 = Inr (example_normalized, [PRef 7, PRef 5])"
  by code_simp

lemma example_twitter_key:
  "is_provider_key ''SOCIAL_TWITTER'' \<and> provider_id_of ''SOCIAL_TWITTER'' = ''twitter''"
  by (simp add: is_provider_key_def startswith_def default_config_def provider_id_of_def
      lower_def lower_char_def)

lemma example_custom_key:
  "startswith ''SOCIAL_CUSTOM'' ''SOCIAL_'' \<and> provider_id_of ''SOCIAL_CUSTOM'' = ''custom'' \<and>
   ''SOCIAL_CUSTOM'' \<notin> set (map fst default_config)"
  by (simp add: startswith_def default_config_def provider_id_of_def lower_def lower_char_def)

section \<open>Properties of Social.init\_app\<close>

text \<open>
  C1. Let \<^verbatim>\<open>init_app\<close> succeed on a store of well-formed dictionaries in which the
  key of a built-in provider is bound to a dictionary \<open>a\<close> with an \<^verbatim>\<open>'oauth'\<close>
  dictionary \<open>a_oauth\<close>, and in which the compiled-in default of that provider is a
  dictionary \<open>d\<close> with an \<^verbatim>\<open>'oauth'\<close> dictionary \<open>d_oauth\<close>. Afterwards the key is
  bound to a new dictionary \<open>c\<close>, which is also in \<^verbatim>\<open>provider_configs\<close>. Outside
  \<^verbatim>\<open>'oauth'\<close>, \<open>c\<close> is \<open>d\<close> overridden by \<open>a\<close>; its \<^verbatim>\<open>'oauth'\<close> entry is a new
  dictionary, which is \<open>d_oauth\<close> overridden by \<open>a_oauth\<close>: every default key the
  application did not set keeps its default, every key the application set has the
  application's value. The instance below is the merge of
  \<^verbatim>\<open>{'consumer_key': 'X', 'oauth': {'request_token_url': 'custom'}}\<close> over the defaults
  \<^verbatim>\<open>{'oauth': {'request_token_url': 'default_url', 'access_token_url': 'default_access'}}\<close>.
\<close>

theorem init_app_merges_default_config:
  assumes "init_app_configs u h cfg = Inr (h', provider_configs)"
    and "wf_dict (h ! cfg)"
    and "is_provider_key key"
    and "provider_id_of key \<in> set (get_default_provider_names u)"
    and "get_class_from_string u (default_config_path (provider_id_of key)) = Inr (PRef d)"
    and "d < length h" and "d \<noteq> cfg"
    and "map_of (h ! d) ''oauth'' = Some (PRef d_oauth)"
    and "d_oauth < length h" and "d_oauth \<noteq> cfg"
    and "map_of (h ! cfg) key = Some (PRef a)"
    and "a < length h" and "a \<noteq> cfg" and "wf_dict (h ! a)"
    and "map_of (h ! a) ''oauth'' = Some (PRef a_oauth)"
    and "a_oauth < length h" and "a_oauth \<noteq> cfg" and "wf_dict (h ! a_oauth)"
  shows "\<exists>c c_oauth.
           map_of (h' ! cfg) key = Some (PRef c) \<and> PRef c \<in> set provider_configs \<and>
           length h \<le> c \<and> c < length h' \<and>
           (\<forall>k. k \<noteq> ''oauth'' \<longrightarrow> map_of (h' ! c) k = (map_of (h ! d) ++ map_of (h ! a)) k) \<and>
           map_of (h' ! c) ''oauth'' = Some (PRef c_oauth) \<and>
           length h \<le> c_oauth \<and> c_oauth < length h' \<and>
           map_of (h' ! c_oauth) = map_of (h ! d_oauth) ++ map_of (h ! a_oauth)"
proof -
  let ?h0 = "seed_defaults h cfg"
  note l = init_app_configs_loop [OF assms(1)]
  note s = seed_defaults_frame [of cfg default_config h, folded seed_defaults_def]
  from l s have cfg0: "cfg < length ?h0" by simp
  from s assms(11) have v0: "map_of (?h0 ! cfg) key = Some (PRef a)" by simp
  then have mem: "key \<in> set (map fst (?h0 ! cfg))"
    by (metis map_of_eq_None_iff option.distinct(1) set_map)
  from s assms(2) have dist: "distinct (map fst (?h0 ! cfg))" by (simp add: wf_dict_def)
  from assms(3,4) have b: "is_builtin_key u key" by (simp add: is_builtin_key_def)
  have inp: "merge_inputs u cfg key ?h0 d d_oauth a a_oauth"
    using assms(5-13,15-17) s v0 by (simp add: merge_inputs_def)
  have same: "?h0 ! d = h ! d" "?h0 ! a = h ! a" "?h0 ! d_oauth = h ! d_oauth"
    "?h0 ! a_oauth = h ! a_oauth" "length ?h0 = length h"
    using s assms(7,10,13,17) by simp_all
  from provider_loop_builtin [OF conjunct2 [OF l] cfg0 dist mem b inp]
  obtain c oc where c: "length ?h0 \<le> c" "c < length h'" "length ?h0 \<le> oc" "oc < length h'"
    "map_of (h' ! cfg) key = Some (PRef c)" "PRef c \<in> set provider_configs"
    "h' ! c = AList.update ''oauth'' (PRef oc)
                (fold (\<lambda>(k, x). AList.update k x) (?h0 ! a) (?h0 ! d))"
    "h' ! oc = fold (\<lambda>(k, x). AList.update k x) (?h0 ! a_oauth) (?h0 ! d_oauth)"
    by blast
  from assms(14) have ra: "map_of (rev (h ! a)) = map_of (h ! a)"
    by (simp add: wf_dict_def map_of_rev_distinct)
  from assms(18) have rao: "map_of (rev (h ! a_oauth)) = map_of (h ! a_oauth)"
    by (simp add: wf_dict_def map_of_rev_distinct)
  have top: "\<forall>k. k \<noteq> ''oauth'' \<longrightarrow> map_of (h' ! c) k = (map_of (h ! d) ++ map_of (h ! a)) k"
    by (simp add: c(7) same update_conv' map_of_fold_update ra)
  have oa: "map_of (h' ! c) ''oauth'' = Some (PRef oc)"
    by (simp add: c(7) update_conv')
  have sub: "map_of (h' ! oc) = map_of (h ! d_oauth) ++ map_of (h ! a_oauth)"
    by (simp add: c(8) same map_of_fold_update rao)
  from c(1-6) same(5) top oa sub show ?thesis by auto
qed

theorem init_app_merges_default_config_witness:
  "init_app_configs example_utils example_heap 0 = Inr (example_normalized, [PRef 7, PRef 5]) \<and>
   wf_dict (example_heap ! 0) \<and>
   is_provider_key ''SOCIAL_TWITTER'' \<and>
   provider_id_of ''SOCIAL_TWITTER'' \<in> set (get_default_provider_names example_utils) \<and>
   get_class_from_string example_utils (default_config_path (provider_id_of ''SOCIAL_TWITTER''))
     = Inr (PRef 1) \<and>
   1 < length example_heap \<and> (1::nat) \<noteq> 0 \<and>
   map_of (example_heap ! 1) ''oauth'' = Some (PRef 2) \<and>
   2 < length example_heap \<and> (2::nat) \<noteq> 0 \<and>
   map_of (example_heap ! 0) ''SOCIAL_TWITTER'' = Some (PRef 3) \<and>
   3 < length example_heap \<and> (3::nat) \<noteq> 0 \<and> wf_dict (example_heap ! 3) \<and>
   map_of (example_heap ! 3) ''oauth'' = Some (PRef 4) \<and>
   4 < length example_heap \<and> (4::nat) \<noteq> 0 \<and> wf_dict (example_heap ! 4) \<and>
   map_of (example_normalized ! 0) ''SOCIAL_TWITTER'' = Some (PRef 7) \<and>
   map_of (example_normalized ! 7) ''oauth'' = Some (PRef 8) \<and>
   map_of (example_normalized ! 7) ''consumer_key'' = Some (PStr ''X'') \<and>
   map_of (example_normalized ! 8) =
     map_of [(''request_token_url'', PStr ''custom''),
             (''access_token_url'', PStr ''default_access'')]"
proof -
  note k = example_twitter_key
  have names: "provider_id_of ''SOCIAL_TWITTER'' \<in> set (get_default_provider_names example_utils)"
    by (simp add: k example_utils_def)
  have cls: "get_class_from_string example_utils
               (default_config_path (provider_id_of ''SOCIAL_TWITTER'')) = Inr (PRef 1)"
    by (simp add: k example_utils_def default_config_path_def)
  have d: "map_of (example_heap ! 1) ''oauth'' = Some (PRef 2)"
    and a: "map_of (example_heap ! 0) ''SOCIAL_TWITTER'' = Some (PRef 3)"
    and ao: "map_of (example_heap ! 3) ''oauth'' = Some (PRef 4)"
    and wf: "wf_dict (example_heap ! 0)" "wf_dict (example_heap ! 3)" "wf_dict (example_heap ! 4)"
    and len: "length example_heap = 7"
    by (simp_all add: example_heap_def wf_dict_def)
  from init_app_merges_default_config
         [OF example_init wf(1) conjunct1 [OF k] names cls _ _ d _ _ a _ _ wf(2) ao _ _ wf(3)]
  obtain c c_oauth
    where c: "map_of (example_normalized ! 0) ''SOCIAL_TWITTER'' = Some (PRef c)"
      and t: "\<forall>k. k \<noteq> ''oauth'' \<longrightarrow>
                map_of (example_normalized ! c) k =
                  (map_of (example_heap ! 1) ++ map_of (example_heap ! 3)) k"
      and o: "map_of (example_normalized ! c) ''oauth'' = Some (PRef c_oauth)"
      and m: "map_of (example_normalized ! c_oauth) =
                map_of (example_heap ! 2) ++ map_of (example_heap ! 4)"
    by (auto simp: len)
  have c7: "map_of (example_normalized ! 0) ''SOCIAL_TWITTER'' = Some (PRef 7)"
    by (simp add: example_normalized_def)
  with c have "c = 7" by simp
  have o8: "map_of (example_normalized ! 7) ''oauth'' = Some (PRef 8)"
    by (simp add: example_normalized_def)
  with o \<open>c = 7\<close> have "c_oauth = 8" by simp
  from t \<open>c = 7\<close> have "map_of (example_normalized ! 7) ''consumer_key'' =
      (map_of (example_heap ! 1) ++ map_of (example_heap ! 3)) ''consumer_key''"
    by simp
  then have ck: "map_of (example_normalized ! 7) ''consumer_key'' = Some (PStr ''X'')"
    by (simp add: example_heap_def)
  have "map_of (example_heap ! 2) ++ map_of (example_heap ! 4) =
        map_of [(''request_token_url'', PStr ''custom''),
                (''access_token_url'', PStr ''default_access'')]"
    by (auto simp: example_heap_def map_add_def fun_eq_iff)
  with m \<open>c_oauth = 8\<close> have "map_of (example_normalized ! 8) =
        map_of [(''request_token_url'', PStr ''custom''),
                (''access_token_url'', PStr ''default_access'')]"
    by simp
  with example_init k names cls d a ao wf len c7 o8 ck show ?thesis by simp
qed

text \<open>
  C4. Let \<^verbatim>\<open>init_app\<close> succeed, and let a key with the prefix \<^verbatim>\<open>SOCIAL_\<close> whose
  provider id is not a built-in name be bound to \<open>v\<close>. Afterwards the key is still
  bound to \<open>v\<close>, every dictionary that existed before other than \<^verbatim>\<open>app.config\<close> (so
  the one \<open>v\<close> refers to, and those it refers to in turn) has the content it had, and
  unless the key is one of the global options, \<open>v\<close> itself is in
  \<^verbatim>\<open>provider_configs\<close>.
\<close>

theorem init_app_custom_config_unchanged:
  assumes "init_app_configs u h cfg = Inr (h', provider_configs)"
    and "startswith key ''SOCIAL_''"
    and "provider_id_of key \<notin> set (get_default_provider_names u)"
    and "map_of (h ! cfg) key = Some v"
  shows "map_of (h' ! cfg) key = Some v \<and>
         (\<forall>a<length h. a \<noteq> cfg \<longrightarrow> h' ! a = h ! a) \<and>
         (key \<notin> set (map fst default_config) \<longrightarrow> v \<in> set provider_configs)"
proof -
  note l = init_app_configs_loop [OF assms(1)]
  note s = seed_defaults_frame [of cfg default_config h, folded seed_defaults_def]
  from l s have cfg0: "cfg < length (seed_defaults h cfg)" by simp
  from s assms(4) have v0: "map_of (seed_defaults h cfg ! cfg) key = Some v" by simp
  from assms(3) have nb: "\<not> is_builtin_key u key" by (simp add: is_builtin_key_def)
  from provider_loop_frame [OF conjunct2 [OF l] cfg0] nb v0
  have 1: "map_of (h' ! cfg) key = Some v" by simp
  have 3: "v \<in> set provider_configs" if "key \<notin> set (map fst default_config)"
  proof -
    from that assms(2) have pk: "is_provider_key key" by (simp add: is_provider_key_def)
    from v0 have "key \<in> set (map fst (seed_defaults h cfg ! cfg))"
      by (metis map_of_eq_None_iff option.distinct(1) set_map)
    from provider_loop_custom [OF conjunct2 [OF l] cfg0 this pk assms(3) v0] show ?thesis .
  qed
  from 1 3 init_app_configs_frame [OF assms(1)] show ?thesis by simp
qed

theorem init_app_custom_config_unchanged_witness:
  "init_app_configs example_utils example_heap 0 = Inr (example_normalized, [PRef 7, PRef 5]) \<and>
   startswith ''SOCIAL_CUSTOM'' ''SOCIAL_'' \<and>
   provider_id_of ''SOCIAL_CUSTOM'' \<notin> set (get_default_provider_names example_utils) \<and>
   map_of (example_heap ! 0) ''SOCIAL_CUSTOM'' = Some (PRef 5) \<and>
   map_of (example_normalized ! 0) ''SOCIAL_CUSTOM'' = Some (PRef 5) \<and>
   example_normalized ! 5 = example_heap ! 5 \<and>
   example_normalized ! 6 = example_heap ! 6 \<and>
   PRef 5 \<in> set [PRef 7, PRef 5]"
proof -
  note k = example_custom_key
  have names: "provider_id_of ''SOCIAL_CUSTOM'' \<notin> set (get_default_provider_names example_utils)"
    by (simp add: k example_utils_def)
  have v: "map_of (example_heap ! 0) ''SOCIAL_CUSTOM'' = Some (PRef 5)"
    and len: "length example_heap = 7"
    by (simp_all add: example_heap_def)
  from init_app_custom_config_unchanged [OF example_init conjunct1 [OF k] names v] k len
  have "map_of (example_normalized ! 0) ''SOCIAL_CUSTOM'' = Some (PRef 5) \<and>
        example_normalized ! 5 = example_heap ! 5 \<and>
        example_normalized ! 6 = example_heap ! 6 \<and>
        PRef 5 \<in> set [PRef 7, PRef 5]"
    by simp
  with example_init k names v show ?thesis by simp
qed

text \<open>
  C10. Let \<^verbatim>\<open>init_app\<close> succeed, and let the compiled-in default of a provider be a
  dictionary \<open>d\<close> with an \<^verbatim>\<open>'oauth'\<close> dictionary \<open>d_oauth\<close>, both different from
  \<^verbatim>\<open>app.config\<close>. Afterwards both have the content they had before, and \<open>d\<close> still
  refers to \<open>d_oauth\<close>: the merge worked on copies.
\<close>

theorem init_app_defaults_unchanged:
  assumes "init_app_configs u h cfg = Inr (h', provider_configs)"
    and "get_class_from_string u (default_config_path pid) = Inr (PRef d)"
    and "d < length h" and "d \<noteq> cfg"
    and "map_of (h ! d) ''oauth'' = Some (PRef d_oauth)"
    and "d_oauth < length h" and "d_oauth \<noteq> cfg"
  shows "h' ! d = h ! d \<and> h' ! d_oauth = h ! d_oauth \<and>
         getitem h' (PRef d) ''oauth'' = Inr (PRef d_oauth)"
proof -
  note f = init_app_configs_frame [OF assms(1)]
  from f assms(3,4) have d: "h' ! d = h ! d" by simp
  from f assms(6,7) have o: "h' ! d_oauth = h ! d_oauth" by simp
  from f assms(3) have "d < length h'" by simp
  with d assms(5) have "getitem h' (PRef d) ''oauth'' = Inr (PRef d_oauth)"
    by (simp add: getitem_def)
  with d o show ?thesis by simp
qed

theorem init_app_defaults_unchanged_witness:
  "init_app_configs example_utils example_heap 0 = Inr (example_normalized, [PRef 7, PRef 5]) \<and>
   get_class_from_string example_utils (default_config_path ''twitter'') = Inr (PRef 1) \<and>
   map_of (example_heap ! 1) ''oauth'' = Some (PRef 2) \<and>
   example_normalized ! 1 = example_heap ! 1 \<and>
   example_normalized ! 2 = example_heap ! 2 \<and>
   getitem example_normalized (PRef 1) ''oauth'' = Inr (PRef 2)"
proof -
  have cls: "get_class_from_string example_utils (default_config_path ''twitter'') = Inr (PRef 1)"
    by (simp add: example_utils_def default_config_path_def)
  have d: "map_of (example_heap ! 1) ''oauth'' = Some (PRef 2)"
    and len: "length example_heap = 7"
    by (simp_all add: example_heap_def)
  from init_app_defaults_unchanged [OF example_init cls _ _ d] len
  have "example_normalized ! 1 = example_heap ! 1 \<and>
        example_normalized ! 2 = example_heap ! 2 \<and>
        getitem example_normalized (PRef 1) ''oauth'' = Inr (PRef 2)"
    by simp
  with example_init cls d show ?thesis by simp
qed

text \<open>
  Where the prefix does not occur again in the rest of the key, \<^verbatim>\<open>replace\<close> removes
  the leading prefix and nothing else.
\<close>

lemma replace_no_occurrence:
  "old \<noteq> [] \<Longrightarrow> \<not> occurs old s \<Longrightarrow> replace old new s = s"
  by (induction s) auto

lemma provider_id_of_single_prefix:
  assumes "startswith key ''SOCIAL_''"
    and "\<not> occurs ''SOCIAL_'' (drop (length ''SOCIAL_'') key)"
  shows "provider_id_of key = lower (drop (length ''SOCIAL_'') key)"
proof -
  from assms(1) obtain c cs where key: "key = c # cs"
    by (cases key) (simp_all add: startswith_def)
  from assms(1) have t: "take (length ''SOCIAL_'') (c # cs) = ''SOCIAL_''"
    by (simp add: startswith_def key)
  have d: "drop (length ''SOCIAL_'' - 1) cs = drop (length ''SOCIAL_'') key"
    by (simp add: key)
  have "replace ''SOCIAL_'' [] (c # cs) =
        replace ''SOCIAL_'' [] (drop (length ''SOCIAL_'' - 1) cs)"
    using t by (simp del: take_Suc_Cons drop_Suc_Cons)
  also have "\<dots> = drop (length ''SOCIAL_'') key"
    unfolding d using assms(2) by (intro replace_no_occurrence) simp_all
  finally show ?thesis by (simp add: provider_id_of_def key)
qed

text \<open>
  C5. The provider id of the key \<^verbatim>\<open>SOCIAL_MY_SOCIAL_NET\<close>, which the loop accepts, is
  \<^verbatim>\<open>my_net\<close>: \<^verbatim>\<open>replace\<close> removes the second \<^verbatim>\<open>SOCIAL_\<close> as well. The key
  without its leading prefix, in lower case, is \<^verbatim>\<open>my_social_net\<close>.
\<close>

theorem provider_id_of_removes_every_occurrence:
  "is_provider_key ''SOCIAL_MY_SOCIAL_NET'' \<and>
   provider_id_of ''SOCIAL_MY_SOCIAL_NET'' = ''my_net'' \<and>
   lower (drop (length ''SOCIAL_'') ''SOCIAL_MY_SOCIAL_NET'') = ''my_social_net''"
  by (simp add: is_provider_key_def startswith_def default_config_def provider_id_of_def
      lower_def lower_char_def)

end
